theory Spec2Isabelle
  imports Complex_Main
begin

section \<open>Triple pendulum on a cart: reward manager and environment\<close>

text \<open>
  A shallow embedding of \<^verbatim>\<open>reward.py\<close>, of the state-advancing parts of
  \<^verbatim>\<open>tp_env.py\<close> and of the state check of \<^verbatim>\<open>train.py\<close>.

  Python floats are modelled by \<^typ>\<open>real\<close>: every formula is read in exact arithmetic,
  \<^verbatim>\<open>np.sin\<close>, \<^verbatim>\<open>np.cos\<close> and \<^verbatim>\<open>np.pi\<close> are \<^term>\<open>sin\<close>, \<^term>\<open>cos\<close> and \<^term>\<open>pi\<close>,
  and a decimal literal is the rational it denotes. Rounding is not modelled. Exceptions are
  values of \<open>py_error\<close> on the left of a sum.
\<close>

datatype py_error = ValueError | AttributeError | IndexError | LinAlgError

subsection \<open>Sequences\<close>

text \<open>
  \<^verbatim>\<open>state[a:b]\<close> for literal bounds \<open>0 \<le> a \<le> b\<close>: a slice never raises, it is shorter
  when the sequence ends early.
\<close>

definition slice :: "nat \<Rightarrow> nat \<Rightarrow> 'a list \<Rightarrow> 'a list" where
  "slice a b xs = take (b - a) (drop a xs)"

text \<open>
  \<^verbatim>\<open>a, b, c = seq\<close>: unpacking raises \<^verbatim>\<open>ValueError\<close> unless the sequence has exactly
  three elements.
\<close>

definition unpack3 :: "'a list \<Rightarrow> py_error + ('a \<times> 'a \<times> 'a)" where
  "unpack3 xs = (case xs of [a, b, c] \<Rightarrow> Inr (a, b, c) | _ \<Rightarrow> Inl ValueError)"

subsection \<open>\<^verbatim>\<open>reward.py\<close>: class \<^verbatim>\<open>RewardManager\<close>\<close>

text \<open>The field \<^verbatim>\<open>length\<close> is named \<open>length_rm\<close>: \<^const>\<open>length\<close> is the list length.\<close>

record RewardManager =
  cart_position_weight :: real
  termination_penalty :: real
  alignement_weight :: real
  upright_weight :: real
  stability_weight :: real
  old_state :: "real list option"
  length_rm :: real

text \<open>\<^verbatim>\<open>RewardManager.__init__\<close>\<close>

definition RewardManager_init :: RewardManager where
  "RewardManager_init =
     \<lparr>cart_position_weight = 1,
      termination_penalty = 10,
      alignement_weight = 1 / 10,
      upright_weight = 1,
      stability_weight = 2 / 100,
      old_state = None,
      length_rm = 1 / 2\<rparr>"

text \<open>
  The four unpacking assignments that open \<^verbatim>\<open>calculate_reward\<close>, in the source's order:
  cart, first, second and third pendulum. The first one that fails raises.
\<close>

type_synonym components =
  "(real \<times> real \<times> real) \<times> (real \<times> real \<times> real) \<times> (real \<times> real \<times> real) \<times> (real \<times> real \<times> real)"

definition extract_components :: "real list \<Rightarrow> py_error + components" where
  "extract_components state =
     (case unpack3 (slice 0 3 state) of Inl e \<Rightarrow> Inl e | Inr cart \<Rightarrow>
     (case unpack3 (slice 3 6 state) of Inl e \<Rightarrow> Inl e | Inr first \<Rightarrow>
     (case unpack3 (slice 6 9 state) of Inl e \<Rightarrow> Inl e | Inr second \<Rightarrow>
     (case unpack3 (slice 9 12 state) of Inl e \<Rightarrow> Inl e | Inr third \<Rightarrow>
        Inr (cart, first, second, third)))))"

text \<open>
  The pendulum positions \<^verbatim>\<open>p1_x, p1_y, p2_x, p2_y, p3_x, p3_y\<close> as the source computes them:
  the first link subtracts \<^verbatim>\<open>length * cos(th1)\<close>, the second and third links add
  \<^verbatim>\<open>length * cos\<close>.
\<close>

definition pendulum_positions ::
  "RewardManager \<Rightarrow> real \<Rightarrow> real \<Rightarrow> real \<Rightarrow> real \<Rightarrow> (real \<times> real) \<times> (real \<times> real) \<times> (real \<times> real)" where
  "pendulum_positions self x th1 th2 th3 =
     (let p1_x = x + length_rm self * sin th1;
          p1_y = - length_rm self * cos th1;
          p2_x = p1_x + length_rm self * sin th2;
          p2_y = p1_y + length_rm self * cos th2;
          p3_x = p2_x + length_rm self * sin th3;
          p3_y = p2_y + length_rm self * cos th3
      in ((p1_x, p1_y), (p2_x, p2_y), (p3_x, p3_y)))"

text \<open>
  The four terms of the reward, one definition for each of the assignments to
  \<^verbatim>\<open>x_penalty\<close>, \<^verbatim>\<open>non_alignement_penalty\<close>, \<^verbatim>\<open>upright_reward\<close> and \<^verbatim>\<open>stability_penalty\<close>.
\<close>

definition x_penalty_of :: "RewardManager \<Rightarrow> real \<Rightarrow> real" where
  "x_penalty_of self x = cart_position_weight self * \<bar>x\<bar>"

definition non_alignement_penalty_of :: "RewardManager \<Rightarrow> real \<Rightarrow> real \<Rightarrow> real \<Rightarrow> real" where
  "non_alignement_penalty_of self th1 th2 th3 =
     alignement_weight self * (\<bar>th1 - th2\<bar> + \<bar>th2 - th3\<bar> + \<bar>th3 - th1\<bar>) / pi"

definition upright_reward_of :: "RewardManager \<Rightarrow> real \<Rightarrow> real \<Rightarrow> real \<Rightarrow> real" where
  "upright_reward_of self p1_y p2_y p3_y = upright_weight self * (- p1_y - p2_y - p3_y)"

definition stability_penalty_of ::
  "RewardManager \<Rightarrow> real \<Rightarrow> real \<Rightarrow> real \<Rightarrow> real \<Rightarrow> real \<Rightarrow> real \<Rightarrow> real" where
  "stability_penalty_of self th1_dot th2_dot th3_dot th1_ddot th2_ddot th3_ddot =
     (let angular_velocity_penalty = (th1_dot\<^sup>2 + th2_dot\<^sup>2 + th3_dot\<^sup>2) / 3;
          angular_accel_penalty = (th1_ddot\<^sup>2 + th2_ddot\<^sup>2 + th3_ddot\<^sup>2) / 3
      in stability_weight self * (angular_velocity_penalty + angular_accel_penalty))"

text \<open>
  \<^verbatim>\<open>calculate_reward(self, state, terminated, current_step)\<close>. The result is the returned
  5-tuple \<^verbatim>\<open>(reward, upright_reward, x_penalty, non_alignement_penalty, stability_penalty)\<close>
  or the exception, together with the manager after the call: \<^verbatim>\<open>self.old_state = state\<close>
  is executed after the unpacking, so a failed call leaves the manager as it was.
\<close>

type_synonym reward_tuple = "real \<times> real \<times> real \<times> real \<times> real"

definition calculate_reward ::
  "RewardManager \<Rightarrow> real list \<Rightarrow> bool \<Rightarrow> int \<Rightarrow> (py_error + reward_tuple) \<times> RewardManager" where
  "calculate_reward self state terminated current_step =
     (case extract_components state of
        Inl e \<Rightarrow> (Inl e, self)
      | Inr ((x, x_dot, x_ddot), (th1, th1_dot, th1_ddot), (th2, th2_dot, th2_ddot),
             (th3, th3_dot, th3_ddot)) \<Rightarrow>
          (case pendulum_positions self x th1 th2 th3 of
             ((p1_x, p1_y), (p2_x, p2_y), (p3_x, p3_y)) \<Rightarrow>
               let self' = self\<lparr>old_state := Some state\<rparr>;
                   x_penalty = x_penalty_of self' x;
                   non_alignement_penalty = non_alignement_penalty_of self' th1 th2 th3;
                   upright_reward = upright_reward_of self' p1_y p2_y p3_y;
                   stability_penalty =
                     stability_penalty_of self' th1_dot th2_dot th3_dot th1_ddot th2_ddot th3_ddot;
                   reward = upright_reward - x_penalty - non_alignement_penalty - stability_penalty;
                   reward = (if terminated then reward - termination_penalty self' else reward)
               in (Inr (reward, upright_reward, x_penalty, non_alignement_penalty,
                        stability_penalty), self')))"

text \<open>
  \<^verbatim>\<open>get_reward_components(self, state, current_step)\<close>: the dictionary literal, as an
  association list in the order the source writes the keys.
\<close>

definition get_reward_components ::
  "RewardManager \<Rightarrow> real list \<Rightarrow> int \<Rightarrow> (py_error + (string \<times> real) list) \<times> RewardManager" where
  "get_reward_components self state current_step =
     (case calculate_reward self state False current_step of
        (Inl e, self') \<Rightarrow> (Inl e, self')
      | (Inr (reward, upright_reward, x_penalty, non_alignement_penalty, stability_penalty), self') \<Rightarrow>
          (Inr [(''x_penalty'', x_penalty),
                (''non_alignement_penalty'', non_alignement_penalty),
                (''upright_reward'', upright_reward),
                (''stability_penalty'', stability_penalty),
                (''reward'', reward)], self'))"

subsection \<open>\<^verbatim>\<open>tp_env.py\<close>: class \<^verbatim>\<open>TriplePendulumEnv\<close>\<close>

text \<open>
  The instance fields the state-advancing code reads or writes. \<^verbatim>\<open>self.n\<close> and
  \<^verbatim>\<open>self.dt\<close> are named \<open>env_n\<close> and \<open>env_dt\<close>. The link count is a natural number.
\<close>

record TriplePendulumEnv =
  env_n :: nat
  arm_length :: real
  bob_mass :: real
  friction_coefficient :: real
  env_dt :: real
  current_state :: "real list option"
  current_time :: real
  applied_force :: real
  force_increment :: real
  target_force :: real
  force_smoothing :: real
  current_frame :: nat
  parameter_vals :: "real list"

text \<open>
  \<^verbatim>\<open>__init__\<close> with \<^verbatim>\<open>_setup_numeric_evaluation\<close>'s \<^verbatim>\<open>parameter_vals\<close>: gravity and the
  cart's mass, then length and mass of each link.
\<close>

definition TriplePendulumEnv_init :: "nat \<Rightarrow> real \<Rightarrow> real \<Rightarrow> real \<Rightarrow> TriplePendulumEnv" where
  "TriplePendulumEnv_init num_nodes al bm fc =
     \<lparr>env_n = num_nodes,
      arm_length = al,
      bob_mass = bm,
      friction_coefficient = fc,
      env_dt = 1 / 100,
      current_state = None,
      current_time = 0,
      applied_force = 0,
      force_increment = 3 / 10,
      target_force = 0,
      force_smoothing = 1 / 10,
      current_frame = 0,
      parameter_vals = [981 / 100, bm] @ concat (replicate num_nodes [al, bm])\<rparr>"

text \<open>
  \<^verbatim>\<open>self.q\<close> and \<^verbatim>\<open>self.u\<close> are \<^verbatim>\<open>dynamicsymbols(f'q:{num_nodes+1}')\<close> and
  \<^verbatim>\<open>dynamicsymbols(f'u:{num_nodes+1}')\<close>: \<open>num_nodes + 1\<close> symbols each.
\<close>

definition len_q :: "TriplePendulumEnv \<Rightarrow> nat" where
  "len_q self = env_n self + 1"

definition len_u :: "TriplePendulumEnv \<Rightarrow> nat" where
  "len_u self = env_n self + 1"

definition ones :: "nat \<Rightarrow> real list" where
  "ones k = replicate k 1"

text \<open>\<^verbatim>\<open>v * arr\<close> for a scalar \<open>v\<close>.\<close>

definition np_scale :: "real \<Rightarrow> real list \<Rightarrow> real list" where
  "np_scale v arr = map (\<lambda>a. v * a) arr"

text \<open>
  \<^verbatim>\<open>reset\<close>: the returned state and the environment after the call, which holds a copy of
  the state and the clock at zero.
\<close>

definition reset :: "TriplePendulumEnv \<Rightarrow> real list \<times> TriplePendulumEnv" where
  "reset self =
     (let position_initial = 0;
          angles_init = - pi / 2;
          speeds_init = 1 / 1000;
          state = [position_initial] @ np_scale angles_init (ones (len_q self - 1))
                    @ np_scale speeds_init (ones (len_u self))
      in (state, self\<lparr>current_state := Some state, current_time := 0\<rparr>))"

definition get_state :: "TriplePendulumEnv \<Rightarrow> real list \<times> TriplePendulumEnv" where
  "get_state self = (case current_state self of Some s \<Rightarrow> (s, self) | None \<Rightarrow> reset self)"

text \<open>
  \<^verbatim>\<open>rhs(self, x, t, args, controller)\<close>. The compiled functions \<^verbatim>\<open>M_func\<close> and
  \<^verbatim>\<open>F_func\<close> come out of sympy at run time; the parameter \<open>dyn\<close> stands for
  \<^verbatim>\<open>np.array(solve(self.M_func(*arguments), self.F_func(*arguments))).T[0]\<close> as a function of
  \<^verbatim>\<open>arguments\<close>, and returns \<^const>\<open>LinAlgError\<close> where \<^verbatim>\<open>solve\<close> raises.
\<close>

definition rhs ::
  "(real list \<Rightarrow> py_error + real list) \<Rightarrow> real list \<Rightarrow> real \<Rightarrow> real list \<Rightarrow>
   (real list \<Rightarrow> real) option \<Rightarrow> py_error + real list" where
  "rhs dyn x t args controller =
     (let u_input = (case controller of Some c \<Rightarrow> c x | None \<Rightarrow> 0);
          arguments = x @ [u_input] @ args
      in dyn arguments)"

text \<open>
  \<^verbatim>\<open>a + b\<close> on one-dimensional arrays: elementwise on equal lengths, an array of length one
  is broadcast, any other pair of lengths raises.
\<close>

definition np_add :: "real list \<Rightarrow> real list \<Rightarrow> py_error + real list" where
  "np_add a b =
     (if length a = length b then Inr (map2 (+) a b)
      else if length b = 1 then Inr (map (\<lambda>v. v + hd b) a)
      else if length a = 1 then Inr (map (\<lambda>v. hd a + v) b)
      else Inl ValueError)"

text \<open>Reading and writing one index of an array; the indices here are never negative.\<close>

definition getitem :: "'a list \<Rightarrow> nat \<Rightarrow> py_error + 'a" where
  "getitem xs i = (if i < length xs then Inr (xs ! i) else Inl IndexError)"

definition setitem :: "'a list \<Rightarrow> nat \<Rightarrow> 'a \<Rightarrow> py_error + 'a list" where
  "setitem xs i v = (if i < length xs then Inr (xs[i := v]) else Inl IndexError)"

text \<open>
  \<^verbatim>\<open>states\<close> is a two-dimensional array, a list of rows of one width;
  \<^verbatim>\<open>states.shape[1]\<close> is that width. \<^verbatim>\<open>states[i] = row\<close> needs the row to fit.
\<close>

definition shape1 :: "real list list \<Rightarrow> nat" where
  "shape1 states = (case states of [] \<Rightarrow> 0 | r # _ \<Rightarrow> length r)"

definition setrow :: "real list list \<Rightarrow> nat \<Rightarrow> real list \<Rightarrow> py_error + real list list" where
  "setrow states i row =
     (if length states \<le> i then Inl IndexError
      else if length row = length (states ! i) then Inr (states[i := row])
      else if length row = 1 then Inr (states[i := replicate (length (states ! i)) (hd row)])
      else Inl ValueError)"

text \<open>The geometry that \<^verbatim>\<open>animate_pendulum\<close> fixes before it defines its \<^verbatim>\<open>step\<close>.\<close>

definition cart_width :: real where
  "cart_width = 4 / 10"

definition window_width :: real where
  "window_width = 4"

definition xmin :: real where
  "xmin = - window_width / 2"

definition xmax :: real where
  "xmax = window_width / 2"

text \<open>
  The boundary handling of \<^verbatim>\<open>step\<close>: the \<^verbatim>\<open>if\<close>/\<^verbatim>\<open>elif\<close> on the cart position
  of \<^verbatim>\<open>next_state\<close>.
\<close>

definition clamp_cart :: "nat \<Rightarrow> real list \<Rightarrow> py_error + real list" where
  "clamp_cart num_joints next_state =
     (case getitem next_state 0 of Inl e \<Rightarrow> Inl e | Inr cart_position \<Rightarrow>
        if cart_position - cart_width / 2 < xmin then
          (case setitem next_state 0 (xmin + cart_width / 2) of Inl e \<Rightarrow> Inl e | Inr ns \<Rightarrow>
             setitem ns num_joints 0)
        else if cart_position + cart_width / 2 > xmax then
          (case setitem next_state 0 (xmax - cart_width / 2) of Inl e \<Rightarrow> Inl e | Inr ns \<Rightarrow>
             setitem ns num_joints 0)
        else Inr next_state)"

text \<open>
  The closure \<^verbatim>\<open>step(frame)\<close> of \<^verbatim>\<open>animate_pendulum(self, steps, states, length, title)\<close>,
  up to \<^verbatim>\<open>states[frame+1] = next_state\<close>: the array of states and the environment after
  the call (the local \<^verbatim>\<open>current_state\<close> is \<open>cur_state\<close> here). The statements after it
  draw the frame and change neither.
\<close>

definition animate_step ::
  "(real list \<Rightarrow> py_error + real list) \<Rightarrow> int \<Rightarrow> TriplePendulumEnv \<Rightarrow> real list list \<Rightarrow> nat \<Rightarrow>
   py_error + (real list list \<times> TriplePendulumEnv)" where
  "animate_step dyn steps self states frame =
     (let num_joints = shape1 states div 2;
          self = self\<lparr>current_frame := frame\<rparr>
      in if int frame < steps - 1 then
           (let self = self\<lparr>applied_force :=
                  applied_force self + force_smoothing self * (target_force self - applied_force self)\<rparr>
            in case getitem states frame of Inl e \<Rightarrow> Inl e | Inr cur_state \<Rightarrow>
               (let time_step = env_dt self
                in case rhs dyn cur_state (real frame * env_dt self) (parameter_vals self)
                          (Some (\<lambda>x. applied_force self)) of Inl e \<Rightarrow> Inl e | Inr dx \<Rightarrow>
                   (case np_add cur_state (np_scale time_step dx) of Inl e \<Rightarrow> Inl e
                    | Inr next_state \<Rightarrow>
                   (case clamp_cart num_joints next_state of Inl e \<Rightarrow> Inl e | Inr next_state \<Rightarrow>
                   (case setrow states (frame + 1) next_state of Inl e \<Rightarrow> Inl e
                    | Inr states \<Rightarrow> Inr (states, self))))))
         else Inr (states, self))"

text \<open>
  One pass through the body of the loop under \<^verbatim>\<open>if __name__ == "__main__"\<close>, which runs
  500 times before the animation starts: the environment, the state and the list of states.
\<close>

definition main_loop_body ::
  "(real list \<Rightarrow> py_error + real list) \<Rightarrow> TriplePendulumEnv \<times> real list \<times> real list list \<Rightarrow>
   py_error + (TriplePendulumEnv \<times> real list \<times> real list list)" where
  "main_loop_body dyn v =
     (case v of (env, state, states) \<Rightarrow>
        (let action = 0 in
         (case rhs dyn state (current_time env) (parameter_vals env) (Some (\<lambda>x. action)) of
            Inl e \<Rightarrow> Inl e
          | Inr dx \<Rightarrow>
              (let env = env\<lparr>current_time := current_time env + env_dt env\<rparr> in
               (case np_add state (np_scale (env_dt env) dx) of Inl e \<Rightarrow> Inl e
                | Inr state \<Rightarrow> Inr (env, state, states @ [state]))))))"

text \<open>
  Attribute lookup on an instance: the names \<^verbatim>\<open>__init__\<close> and the two setup methods bind
  on the instance, then the names the class body defines. The function \<^verbatim>\<open>step\<close> that
  \<^verbatim>\<open>animate_pendulum\<close> defines is local to that call. A name found nowhere raises
  \<^verbatim>\<open>AttributeError\<close> (the attributes every object inherits are left out).
\<close>

datatype attr_kind = InstanceField | Method

definition TriplePendulumEnv_fields :: "string list" where
  "TriplePendulumEnv_fields =
     [''reward_manager'', ''render_mode'', ''n'', ''arm_length'', ''bob_mass'',
      ''friction_coefficient'', ''dt'', ''current_state'', ''current_time'', ''applied_force'',
      ''force_increment'', ''target_force'', ''force_smoothing'', ''current_frame'',
      ''q'', ''u'', ''f'', ''m'', ''l'', ''g'', ''t'', ''kane'', ''fr'', ''frstar'',
      ''parameter_vals'', ''M_func'', ''F_func'']"

definition TriplePendulumEnv_methods :: "string list" where
  "TriplePendulumEnv_methods =
     [''__init__'', ''_setup_symbolic_model'', ''_setup_numeric_evaluation'', ''rhs'',
      ''reset'', ''get_state'', ''_render_init'', ''animate_pendulum'']"

definition TriplePendulumEnv_getattr :: "string \<Rightarrow> py_error + attr_kind" where
  "TriplePendulumEnv_getattr name =
     (if name \<in> set TriplePendulumEnv_fields then Inr InstanceField
      else if name \<in> set TriplePendulumEnv_methods then Inr Method
      else Inl AttributeError)"

subsection \<open>\<^verbatim>\<open>train.py\<close>: the check of the state after a step\<close>

text \<open>
  The check concerns values that are not finite, so here a float is a real number, one of
  the two infinities or NaN. Addition follows IEEE 754: NaN absorbs, the two infinities add
  up to NaN, an infinity absorbs a finite value. The sum of two finite values is rounded and
  may overflow to an infinity; it is the parameter \<open>radd\<close>, so that nothing is assumed of
  the rounding.
\<close>

datatype float64 = Finite real | PosInf | NegInf | NaN

fun float_add :: "(real \<Rightarrow> real \<Rightarrow> float64) \<Rightarrow> float64 \<Rightarrow> float64 \<Rightarrow> float64" where
  "float_add radd NaN _ = NaN"
| "float_add radd _ NaN = NaN"
| "float_add radd PosInf NegInf = NaN"
| "float_add radd NegInf PosInf = NaN"
| "float_add radd PosInf _ = PosInf"
| "float_add radd _ PosInf = PosInf"
| "float_add radd NegInf _ = NegInf"
| "float_add radd _ NegInf = NegInf"
| "float_add radd (Finite a) (Finite b) = radd a b"

text \<open>
  An addition of finite values with the overflow of binary64: a sum of size
  \<open>2^1024 - 2^970\<close> or more is an infinity. The rounding of a sum that stays finite is left
  out. It serves to evaluate the check at concrete states.
\<close>

definition binary64_add :: "real \<Rightarrow> real \<Rightarrow> float64" where
  "binary64_add a b =
     (if 2 ^ 1024 - 2 ^ 970 \<le> a + b then PosInf
      else if a + b \<le> - (2 ^ 1024 - 2 ^ 970) then NegInf
      else Finite (a + b))"

text \<open>
  \<^verbatim>\<open>np.sum\<close> of a one-dimensional array, the components added from left to right onto
  zero. That is the order numpy follows on an array of fewer than eight components, such as
  the state of the two links the trainer configures; a longer array it adds in blocks, an
  order this definition does not follow.
\<close>

definition np_sum :: "(real \<Rightarrow> real \<Rightarrow> float64) \<Rightarrow> float64 list \<Rightarrow> float64" where
  "np_sum radd xs = foldl (float_add radd) (Finite 0) xs"

definition np_isnan :: "float64 \<Rightarrow> bool" where
  "np_isnan v = (v = NaN)"


text \<open>
  \<^verbatim>\<open>collect_trajectory\<close>, the statement under \<^verbatim>\<open># Check for NaN values in state\<close>:
  it raises \<^verbatim>\<open>ValueError\<close> or falls through with \<^verbatim>\<open>next_state\<close> as it is. The state comes
  from \<^verbatim>\<open>self.env.step(action)\<close>, which the environment does not define, so the check is
  taken on any array.
\<close>

definition check_next_state ::
  "(real \<Rightarrow> real \<Rightarrow> float64) \<Rightarrow> float64 list \<Rightarrow> py_error + float64 list" where
  "check_next_state radd next_state =
     (if np_isnan (np_sum radd next_state) then Inl ValueError else Inr next_state)"

subsection \<open>Auxiliary definitions for the properties\<close>

text \<open>
  The manager after a sequence of earlier calls of \<^verbatim>\<open>calculate_reward\<close>, each with its state,
  flag and step count, whether they returned or raised.
\<close>

definition after_calls :: "RewardManager \<Rightarrow> (real list \<times> bool \<times> int) list \<Rightarrow> RewardManager" where
  "after_calls self calls = foldl (\<lambda>rm (s, t, k). snd (calculate_reward rm s t k)) self calls"

text \<open>
  The forward kinematics in the words of the specification: the tip of a link is the tip of
  the link before it (the cart for the first link) plus \<open>L \<cdot> (sin \<theta>, - cos \<theta>)\<close>.
\<close>

fun spec_tips :: "real \<Rightarrow> real \<times> real \<Rightarrow> real list \<Rightarrow> (real \<times> real) list" where
  "spec_tips L p [] = []"
| "spec_tips L p (th # ths) =
     (let q = (fst p + L * sin th, snd p - L * cos th) in q # spec_tips L q ths)"

text \<open>
  A concrete \<open>dyn\<close> for evaluating the integration at an input: the derivative of each
  coordinate is its speed, as the kinematic equations \<^verbatim>\<open>q' = u\<close> of the model fix for any
  dynamics, and every acceleration is zero. With \<open>k\<close> links the state is
  \<open>k + 1\<close> coordinates followed by \<open>k + 1\<close> speeds.
\<close>

definition coasting_dyn :: "nat \<Rightarrow> real list \<Rightarrow> py_error + real list" where
  "coasting_dyn k arguments = Inr (take (k + 1) (drop (k + 1) arguments) @ replicate (k + 1) 0)"

section \<open>Properties\<close>

subsection \<open>Unpacking\<close>

lemma unpack3_three: "unpack3 [a, b, c] = Inr (a, b, c)"
  by (simp add: unpack3_def)

subsection \<open>The reward on a state of twelve components\<close>

lemma unpack3_Inl: "length xs \<noteq> 3 \<Longrightarrow> unpack3 xs = Inl ValueError"
  by (auto simp: unpack3_def split: list.splits)

lemma take3_drop:
  "a + 3 \<le> length xs \<Longrightarrow> take 3 (drop a xs) = [xs ! a, xs ! (a + 1), xs ! (a + 2)]"
  by (auto simp: list_eq_iff_nth_eq nth_Cons' numeral_3_eq_3 less_Suc_eq)

lemma unpack3_slice:
  assumes "b = a + 3" "i = a + 1" "j = a + 2"
  shows "unpack3 (slice a b xs) =
     (if b \<le> length xs then Inr (xs ! a, xs ! i, xs ! j) else Inl ValueError)"
proof (cases "b \<le> length xs")
  case True
  then show ?thesis using assms by (simp add: slice_def take3_drop unpack3_three)
next
  case False
  then have "length (slice a b xs) \<noteq> 3" using assms by (simp add: slice_def)
  with False show ?thesis by (simp add: unpack3_Inl)
qed

lemma extract_components_eq:
  "extract_components s =
     (if 12 \<le> length s
      then Inr ((s ! 0, s ! 1, s ! 2), (s ! 3, s ! 4, s ! 5), (s ! 6, s ! 7, s ! 8),
                (s ! 9, s ! 10, s ! 11))
      else Inl ValueError)"
proof -
  have a: "unpack3 (slice 0 3 s) =
      (if 3 \<le> length s then Inr (s ! 0, s ! 1, s ! 2) else Inl ValueError)"
    by (rule unpack3_slice) simp_all
  have b: "unpack3 (slice 3 6 s) =
      (if 6 \<le> length s then Inr (s ! 3, s ! 4, s ! 5) else Inl ValueError)"
    by (rule unpack3_slice) simp_all
  have c: "unpack3 (slice 6 9 s) =
      (if 9 \<le> length s then Inr (s ! 6, s ! 7, s ! 8) else Inl ValueError)"
    by (rule unpack3_slice) simp_all
  have d: "unpack3 (slice 9 12 s) =
      (if 12 \<le> length s then Inr (s ! 9, s ! 10, s ! 11) else Inl ValueError)"
    by (rule unpack3_slice) simp_all
  show ?thesis
    unfolding extract_components_def a b c d by simp
qed

lemma calculate_reward_short:
  "length s < 12 \<Longrightarrow> calculate_reward self s t k = (Inl ValueError, self)"
  by (simp add: calculate_reward_def extract_components_eq)

lemma calculate_reward_long:
  assumes "12 \<le> length s"
  shows "calculate_reward self s t k =
   (case pendulum_positions self (s ! 0) (s ! 3) (s ! 6) (s ! 9) of
      ((p1_x, p1_y), (p2_x, p2_y), (p3_x, p3_y)) \<Rightarrow>
        (Inr (upright_reward_of self p1_y p2_y p3_y - x_penalty_of self (s ! 0)
                - non_alignement_penalty_of self (s ! 3) (s ! 6) (s ! 9)
                - stability_penalty_of self (s ! 4) (s ! 7) (s ! 10) (s ! 5) (s ! 8) (s ! 11)
                - (if t then termination_penalty self else 0),
              upright_reward_of self p1_y p2_y p3_y,
              x_penalty_of self (s ! 0),
              non_alignement_penalty_of self (s ! 3) (s ! 6) (s ! 9),
              stability_penalty_of self (s ! 4) (s ! 7) (s ! 10) (s ! 5) (s ! 8) (s ! 11)),
         self\<lparr>old_state := Some s\<rparr>))"
  unfolding calculate_reward_def using assms
  by (simp add: extract_components_eq Let_def x_penalty_of_def non_alignement_penalty_of_def
      upright_reward_of_def stability_penalty_of_def split: prod.splits)

lemma calculate_reward_twelve:
  "calculate_reward self
     ([x, x_dot, x_ddot, th1, th1_dot, th1_ddot, th2, th2_dot, th2_ddot,
       th3, th3_dot, th3_ddot] @ rest) t k =
   (case pendulum_positions self x th1 th2 th3 of
      ((p1_x, p1_y), (p2_x, p2_y), (p3_x, p3_y)) \<Rightarrow>
        (Inr (upright_reward_of self p1_y p2_y p3_y - x_penalty_of self x
                - non_alignement_penalty_of self th1 th2 th3
                - stability_penalty_of self th1_dot th2_dot th3_dot th1_ddot th2_ddot th3_ddot
                - (if t then termination_penalty self else 0),
              upright_reward_of self p1_y p2_y p3_y,
              x_penalty_of self x,
              non_alignement_penalty_of self th1 th2 th3,
              stability_penalty_of self th1_dot th2_dot th3_dot th1_ddot th2_ddot th3_ddot),
         self\<lparr>old_state := Some ([x, x_dot, x_ddot, th1, th1_dot, th1_ddot, th2, th2_dot,
                                    th2_ddot, th3, th3_dot, th3_ddot] @ rest)\<rparr>))"
  by (simp add: calculate_reward_long)

lemma calculate_reward_weights:
  "fst (calculate_reward (self\<lparr>old_state := prev\<rparr>) s t k) = fst (calculate_reward self s t k')"
proof (cases "12 \<le> length s")
  case True
  then show ?thesis
    by (simp add: calculate_reward_long pendulum_positions_def x_penalty_of_def
        non_alignement_penalty_of_def upright_reward_of_def stability_penalty_of_def Let_def)
next
  case False
  then show ?thesis by (simp add: calculate_reward_short)
qed

lemma calculate_reward_snd:
  "\<exists>prev. snd (calculate_reward self s t k) = self\<lparr>old_state := prev\<rparr>"
proof (cases "12 \<le> length s")
  case True
  then show ?thesis by (auto simp add: calculate_reward_long split: prod.splits)
next
  case False
  then have "snd (calculate_reward self s t k) = self\<lparr>old_state := old_state self\<rparr>"
    by (simp add: calculate_reward_short)
  then show ?thesis by blast
qed

lemma reset_state:
  "fst (reset env) = 0 # replicate (env_n env) (- pi / 2) @ replicate (env_n env + 1) (1 / 1000)"
  by (simp add: reset_def Let_def np_scale_def ones_def len_q_def len_u_def)

subsection \<open>Misalignment penalty\<close>

text \<open>
  C6: on a state with the twelve components the misalignment penalty that
  \<^verbatim>\<open>calculate_reward\<close> returns is the alignment weight times
  \<open>\<bar>th1 - th2\<bar> + \<bar>th2 - th3\<bar> + \<bar>th3 - th1\<bar>\<close> divided by \<open>\<pi>\<close>, and it is 0 when the three
  angles have one common value, whatever that value is.
\<close>

theorem misalignment_penalty_cyclic:
  "(\<exists>reward upright_reward x_penalty stability_penalty.
      fst (calculate_reward self
             ([x, x_dot, x_ddot, th1, th1_dot, th1_ddot, th2, th2_dot, th2_ddot,
               th3, th3_dot, th3_ddot] @ rest) terminated current_step) =
      Inr (reward, upright_reward, x_penalty,
           alignement_weight self * (\<bar>th1 - th2\<bar> + \<bar>th2 - th3\<bar> + \<bar>th3 - th1\<bar>) / pi,
           stability_penalty))
   \<and> (\<exists>reward upright_reward x_penalty stability_penalty.
      fst (calculate_reward self
             ([x, x_dot, x_ddot, th, th1_dot, th1_ddot, th, th2_dot, th2_ddot,
               th, th3_dot, th3_ddot] @ rest) terminated current_step) =
      Inr (reward, upright_reward, x_penalty, 0, stability_penalty))"
  unfolding calculate_reward_twelve
  by (simp add: non_alignement_penalty_of_def split: prod.splits)

theorem misalignment_penalty_cyclic_witness:
  "(\<exists>reward upright_reward x_penalty stability_penalty.
      fst (calculate_reward RewardManager_init
             [1, 0, 0, pi, 1, 0, 0, 1, 0, 0, 1, 0] False 0) =
      Inr (reward, upright_reward, x_penalty, 1 / 5, stability_penalty))
   \<and> (\<exists>reward upright_reward x_penalty stability_penalty.
      fst (calculate_reward RewardManager_init
             [1, 0, 0, 7 / 10, 1, 0, 7 / 10, 1, 0, 7 / 10, 1, 0] False 0) =
      Inr (reward, upright_reward, x_penalty, 0, stability_penalty))"
  using misalignment_penalty_cyclic [of RewardManager_init 1 0 0 pi 1 0 0 1 0 0 1 0 "[]" False 0 "7 / 10"]
  by (simp add: RewardManager_init_def)

subsection \<open>Termination penalty\<close>

text \<open>
  C5: for every state and step count the call with \<^verbatim>\<open>terminated=True\<close> returns what the call
  with \<^verbatim>\<open>terminated=False\<close> returns, with the reward lowered by exactly
  \<^verbatim>\<open>termination_penalty\<close> and the other four components unchanged (and the same exception
  where the state is too short); on a state with the twelve components the call returns.
\<close>

theorem termination_penalty_exact:
  "fst (calculate_reward self state True current_step) =
     map_sum id
       (\<lambda>(reward, upright_reward, x_penalty, non_alignement_penalty, stability_penalty).
          (reward - termination_penalty self, upright_reward, x_penalty, non_alignement_penalty,
           stability_penalty))
       (fst (calculate_reward self state False current_step))
   \<and> (\<exists>r. fst (calculate_reward self
             ([x, x_dot, x_ddot, th1, th1_dot, th1_ddot, th2, th2_dot, th2_ddot,
               th3, th3_dot, th3_ddot] @ rest) False current_step) = Inr r)"
proof -
  have "fst (calculate_reward self state True current_step) =
     map_sum id
       (\<lambda>(reward, upright_reward, x_penalty, non_alignement_penalty, stability_penalty).
          (reward - termination_penalty self, upright_reward, x_penalty, non_alignement_penalty,
           stability_penalty))
       (fst (calculate_reward self state False current_step))"
  proof (cases "12 \<le> length state")
    case True
    then show ?thesis by (simp add: calculate_reward_long split: prod.splits)
  next
    case False
    then show ?thesis by (simp add: calculate_reward_short)
  qed
  moreover have "\<exists>r. fst (calculate_reward self
             ([x, x_dot, x_ddot, th1, th1_dot, th1_ddot, th2, th2_dot, th2_ddot,
               th3, th3_dot, th3_ddot] @ rest) False current_step) = Inr r"
    unfolding calculate_reward_twelve by (simp split: prod.splits)
  ultimately show ?thesis by blast
qed

theorem termination_penalty_exact_witness:
  "fst (calculate_reward RewardManager_init [1, 0, 0, pi, 1, 0, 0, 1, 0, 0, 1, 0] False 3) =
     Inr (- 211 / 50, - 3, 1, 1 / 5, 1 / 50)
   \<and> fst (calculate_reward RewardManager_init [1, 0, 0, pi, 1, 0, 0, 1, 0, 0, 1, 0] True 3) =
     Inr (- 711 / 50, - 3, 1, 1 / 5, 1 / 50)"
proof -
  have f: "fst (calculate_reward RewardManager_init
                 ([1, 0, 0, pi, 1, 0, 0, 1, 0, 0, 1, 0] @ []) False 3) =
      Inr (- 211 / 50, - 3, 1, 1 / 5, 1 / 50)"
    unfolding calculate_reward_twelve
    by (simp add: pendulum_positions_def RewardManager_init_def x_penalty_of_def
        non_alignement_penalty_of_def upright_reward_of_def stability_penalty_of_def)
  then show ?thesis
    using termination_penalty_exact [of RewardManager_init "[1, 0, 0, pi, 1, 0, 0, 1, 0, 0, 1, 0]" 3]
    by (simp add: RewardManager_init_def)
qed

lemma after_calls_old_state: "\<exists>prev. after_calls self calls = self\<lparr>old_state := prev\<rparr>"
proof (induction calls arbitrary: self)
  case Nil
  have "after_calls self [] = self\<lparr>old_state := old_state self\<rparr>"
    by (simp add: after_calls_def)
  then show ?case by blast
next
  case (Cons c calls)
  obtain s t k where c: "c = (s, t, k)" by (cases c)
  obtain p where p: "snd (calculate_reward self s t k) = self\<lparr>old_state := p\<rparr>"
    using calculate_reward_snd by blast
  obtain p' where "after_calls (self\<lparr>old_state := p\<rparr>) calls = self\<lparr>old_state := p, old_state := p'\<rparr>"
    using Cons.IH by blast
  then have "after_calls self (c # calls) = self\<lparr>old_state := p'\<rparr>"
    by (simp add: after_calls_def c p)
  then show ?case by blast
qed

subsection \<open>Independence of the stored state\<close>

text \<open>
  C8: what \<^verbatim>\<open>calculate_reward\<close> returns depends on the state and the flag only: for a
  manager with the same weights, the same state and the same flag the result is the same
  whatever \<^verbatim>\<open>old_state\<close> holds, whatever calls were made before, and whatever
  \<^verbatim>\<open>current_step\<close> is.
\<close>

theorem calculate_reward_pure:
  "fst (calculate_reward (after_calls (self\<lparr>old_state := prev\<rparr>) calls) state terminated k) =
   fst (calculate_reward self state terminated k')"
proof -
  obtain p where "after_calls (self\<lparr>old_state := prev\<rparr>) calls = self\<lparr>old_state := prev, old_state := p\<rparr>"
    using after_calls_old_state by blast
  then have "after_calls (self\<lparr>old_state := prev\<rparr>) calls = self\<lparr>old_state := p\<rparr>"
    by simp
  then show ?thesis by (simp add: calculate_reward_weights)
qed

theorem calculate_reward_pure_witness:
  "fst (calculate_reward
          (after_calls RewardManager_init
             [([0, 0], True, 1), ([1, 0, 0, pi, 1, 0, 0, 1, 0, 0, 1, 0], False, 2)])
          [1, 0, 0, pi, 1, 0, 0, 1, 0, 0, 1, 0] True 5) =
   fst (calculate_reward RewardManager_init [1, 0, 0, pi, 1, 0, 0, 1, 0, 0, 1, 0] True 0)"
  using calculate_reward_pure [where self = RewardManager_init and prev = None
      and calls = "[([0, 0], True, 1), ([1, 0, 0, pi, 1, 0, 0, 1, 0, 0, 1, 0], False, 2)]"
      and state = "[1, 0, 0, pi, 1, 0, 0, 1, 0, 0, 1, 0]" and terminated = True
      and k = 5 and k' = 0]
  by (simp add: RewardManager_init_def)

subsection \<open>Reward components\<close>

text \<open>
  C9, on twelve components or more: on such a state \<^verbatim>\<open>get_reward_components\<close> returns a dictionary
  of exactly five entries, \<^verbatim>\<open>x_penalty\<close>, \<^verbatim>\<open>non_alignement_penalty\<close>, \<^verbatim>\<open>upright_reward\<close>,
  \<^verbatim>\<open>stability_penalty\<close> and \<^verbatim>\<open>reward\<close>, where \<^verbatim>\<open>reward\<close> is the uprightness reward minus
  the three penalties, with no termination penalty.
\<close>

theorem get_reward_components_fields:
  "fst (get_reward_components self
          ([x, x_dot, x_ddot, th1, th1_dot, th1_ddot, th2, th2_dot, th2_ddot,
            th3, th3_dot, th3_ddot] @ rest) current_step) =
   (case pendulum_positions self x th1 th2 th3 of
      ((p1_x, p1_y), (p2_x, p2_y), (p3_x, p3_y)) \<Rightarrow>
        let x_penalty = cart_position_weight self * \<bar>x\<bar>;
            non_alignement_penalty =
              alignement_weight self * (\<bar>th1 - th2\<bar> + \<bar>th2 - th3\<bar> + \<bar>th3 - th1\<bar>) / pi;
            upright_reward = upright_weight self * (- p1_y - p2_y - p3_y);
            stability_penalty =
              stability_weight self *
                ((th1_dot\<^sup>2 + th2_dot\<^sup>2 + th3_dot\<^sup>2) / 3 + (th1_ddot\<^sup>2 + th2_ddot\<^sup>2 + th3_ddot\<^sup>2) / 3)
        in Inr [(''x_penalty'', x_penalty),
                (''non_alignement_penalty'', non_alignement_penalty),
                (''upright_reward'', upright_reward),
                (''stability_penalty'', stability_penalty),
                (''reward'',
                 upright_reward - x_penalty - non_alignement_penalty - stability_penalty)])"
  unfolding get_reward_components_def calculate_reward_twelve
  by (simp add: Let_def x_penalty_of_def non_alignement_penalty_of_def upright_reward_of_def
      stability_penalty_of_def split: prod.splits)

theorem get_reward_components_fields_witness:
  "fst (get_reward_components RewardManager_init [1, 0, 0, pi, 1, 0, 0, 1, 0, 0, 1, 0] 0) =
     Inr [(''x_penalty'', 1), (''non_alignement_penalty'', 1 / 5), (''upright_reward'', - 3),
          (''stability_penalty'', 1 / 50), (''reward'', - 211 / 50)]"
  using get_reward_components_fields [of RewardManager_init 1 0 0 pi 1 0 0 1 0 0 1 0 "[]" 0]
  by (simp add: pendulum_positions_def RewardManager_init_def)

text \<open>
  On the state that \<^verbatim>\<open>reset\<close> returns for two links, the configured count, and for three,
  the default, \<^verbatim>\<open>get_reward_components\<close> raises and returns no dictionary.
\<close>

theorem get_reward_components_reset_raises:
  "fst (reset (TriplePendulumEnv_init 2 (1 / 3) (1 / 300) (1 / 10))) =
     [0, - pi / 2, - pi / 2, 1 / 1000, 1 / 1000, 1 / 1000]
   \<and> fst (get_reward_components RewardManager_init
            (fst (reset (TriplePendulumEnv_init 2 (1 / 3) (1 / 300) (1 / 10)))) 0) =
       Inl ValueError
   \<and> fst (get_reward_components RewardManager_init
            (fst (reset (TriplePendulumEnv_init 3 (1 / 3) (1 / 300) (1 / 10)))) 0) =
       Inl ValueError"
proof -
  have "length (fst (reset (TriplePendulumEnv_init 2 (1 / 3) (1 / 300) (1 / 10)))) < 12"
    "length (fst (reset (TriplePendulumEnv_init 3 (1 / 3) (1 / 300) (1 / 10)))) < 12"
    by (simp_all add: reset_state TriplePendulumEnv_init_def)
  then have "fst (get_reward_components RewardManager_init
            (fst (reset (TriplePendulumEnv_init 2 (1 / 3) (1 / 300) (1 / 10)))) 0) =
       Inl ValueError"
    "fst (get_reward_components RewardManager_init
            (fst (reset (TriplePendulumEnv_init 3 (1 / 3) (1 / 300) (1 / 10)))) 0) =
       Inl ValueError"
    by (simp_all add: get_reward_components_def calculate_reward_short)
  moreover have "fst (reset (TriplePendulumEnv_init 2 (1 / 3) (1 / 300) (1 / 10))) =
     [0, - pi / 2, - pi / 2, 1 / 1000, 1 / 1000, 1 / 1000]"
    by (simp add: reset_state TriplePendulumEnv_init_def numeral_2_eq_2 numeral_3_eq_3)
  ultimately show ?thesis by simp
qed

subsection \<open>Forward kinematics\<close>

text \<open>
  C2: the tip of link \<open>i \<ge> 2\<close> is to be the tip of link \<open>i - 1\<close> plus
  \<open>L \<cdot> (sin \<theta>\<^sub>i, - cos \<theta>\<^sub>i)\<close>. The source adds \<open>L \<cdot> cos \<theta>\<^sub>i\<close> for the second and third link where
  it subtracts it for the first. With every component zero the three tips are at heights
  \<open>-1/2\<close>, \<open>0\<close> and \<open>1/2\<close> in the source's frame, where the chain rule of the specification
  gives \<open>-1/2\<close>, \<open>-1\<close> and \<open>-3/2\<close>; the uprightness reward returned is 0, not 3.
\<close>

theorem pendulum_positions_all_zero:
  "pendulum_positions RewardManager_init 0 0 0 0 = ((0, - 1 / 2), (0, 0), (0, 1 / 2))
   \<and> spec_tips (1 / 2) (0, 0) [0, 0, 0] = [(0, - 1 / 2), (0, - 1), (0, - 3 / 2)]
   \<and> fst (calculate_reward RewardManager_init [0, 0, 0, 0, 0, 0, 0, 0, 0, 0, 0, 0] False 0) =
       Inr (0, 0, 0, 0, 0)"
proof -
  have "calculate_reward RewardManager_init ([0, 0, 0, 0, 0, 0, 0, 0, 0, 0, 0, 0] @ []) False 0
      = (Inr (0, 0, 0, 0, 0), RewardManager_init\<lparr>old_state := Some ([0, 0, 0, 0, 0, 0, 0, 0, 0, 0, 0, 0] @ [])\<rparr>)"
    unfolding calculate_reward_twelve
    by (simp add: pendulum_positions_def RewardManager_init_def x_penalty_of_def
        non_alignement_penalty_of_def upright_reward_of_def stability_penalty_of_def)
  then show ?thesis
    by (simp add: pendulum_positions_def RewardManager_init_def)
qed

subsection \<open>Reset\<close>

text \<open>
  C4: \<^verbatim>\<open>reset\<close> returns the cart position 0, then \<open>n\<close> link angles \<open>- \<pi> / 2\<close>, then
  \<open>n + 1\<close> speeds \<open>1/1000\<close>, which is not zero; it sets the clock to zero and stores the
  state; a second \<^verbatim>\<open>reset\<close> gives the same result as the first, and the state returned does
  not depend on the state or the clock held before.
\<close>

theorem reset_initial_state:
  "fst (reset env) = 0 # replicate (env_n env) (- pi / 2) @ replicate (env_n env + 1) (1 / 1000)
   \<and> (1 / 1000 :: real) \<noteq> 0
   \<and> current_time (snd (reset env)) = 0
   \<and> current_state (snd (reset env)) = Some (fst (reset env))
   \<and> reset (snd (reset env)) = reset env
   \<and> fst (reset (env\<lparr>current_state := cs, current_time := ct\<rparr>)) = fst (reset env)"
  by (simp add: reset_def Let_def np_scale_def ones_def len_q_def len_u_def)

theorem reset_initial_state_witness:
  "fst (reset (TriplePendulumEnv_init 3 (1 / 3) (1 / 300) (1 / 10))) =
     [0, - pi / 2, - pi / 2, - pi / 2, 1 / 1000, 1 / 1000, 1 / 1000, 1 / 1000]
   \<and> current_time (snd (reset (TriplePendulumEnv_init 3 (1 / 3) (1 / 300) (1 / 10)))) = 0"
  using reset_initial_state [of "TriplePendulumEnv_init 3 (1 / 3) (1 / 300) (1 / 10)"]
  by (simp add: TriplePendulumEnv_init_def numeral_3_eq_3)

subsection \<open>The components read\<close>

lemma length_reset: "length (fst (reset env)) = 2 * env_n env + 2"
  by (simp add: reset_state)

text \<open>
  C3: \<^verbatim>\<open>calculate_reward\<close> and \<^verbatim>\<open>get_reward_components\<close> raise on every state with fewer than
  twelve components; on a longer state they read the components at the indices 0 to 11 as
  \<open>(x, x_dot, x_ddot)\<close> and the three \<open>(th, th_dot, th_ddot)\<close>, and nothing else. The state
  that \<^verbatim>\<open>reset\<close> returns has \<open>2 n + 2\<close> components, so for \<open>n \<le> 4\<close> both raise on it.
\<close>

theorem calculate_reward_reads_twelve:
  "(length s < 12 \<longrightarrow>
      fst (calculate_reward self s t k) = Inl ValueError
      \<and> fst (get_reward_components self s k) = Inl ValueError)
   \<and> (12 \<le> length s \<longrightarrow>
      extract_components s =
        Inr ((s ! 0, s ! 1, s ! 2), (s ! 3, s ! 4, s ! 5), (s ! 6, s ! 7, s ! 8),
             (s ! 9, s ! 10, s ! 11))
      \<and> (\<exists>r. fst (calculate_reward self s t k) = Inr r)
      \<and> fst (calculate_reward self s t k) = fst (calculate_reward self (take 12 s) t k))
   \<and> (env_n env \<le> 4 \<longrightarrow>
      length (fst (reset env)) = 2 * env_n env + 2
      \<and> fst (calculate_reward self (fst (reset env)) t k) = Inl ValueError
      \<and> fst (get_reward_components self (fst (reset env)) k) = Inl ValueError)"
proof -
  have short: "fst (calculate_reward self s' t k) = Inl ValueError
      \<and> fst (get_reward_components self s' k) = Inl ValueError" if "length s' < 12" for s'
    using that by (simp add: get_reward_components_def calculate_reward_short)
  have long: "extract_components s =
        Inr ((s ! 0, s ! 1, s ! 2), (s ! 3, s ! 4, s ! 5), (s ! 6, s ! 7, s ! 8),
             (s ! 9, s ! 10, s ! 11))
      \<and> (\<exists>r. fst (calculate_reward self s t k) = Inr r)
      \<and> fst (calculate_reward self s t k) = fst (calculate_reward self (take 12 s) t k)"
    if "12 \<le> length s"
    using that by (simp add: extract_components_eq calculate_reward_long split: prod.splits)
  have "length (fst (reset env)) < 12" if "env_n env \<le> 4"
    using that by (simp add: length_reset)
  with short long length_reset show ?thesis by blast
qed

theorem calculate_reward_reads_twelve_witness:
  "fst (calculate_reward RewardManager_init [0, - pi / 2, 1 / 1000, 1 / 1000] True 7) = Inl ValueError
   \<and> (\<exists>r. fst (calculate_reward RewardManager_init [0, 0, 0, 1, 0, 0, 1, 0, 0, 1, 0, 0] False 0) = Inr r)
   \<and> fst (calculate_reward RewardManager_init
            (fst (reset (TriplePendulumEnv_init 4 (1 / 3) (1 / 300) (1 / 10)))) False 0) =
       Inl ValueError"
  using calculate_reward_reads_twelve [of "[0, - pi / 2, 1 / 1000, 1 / 1000]" RewardManager_init True 7
      "TriplePendulumEnv_init 4 (1 / 3) (1 / 300) (1 / 10)"]
    calculate_reward_reads_twelve [of "[0, 0, 0, 1, 0, 0, 1, 0, 0, 1, 0, 0]" RewardManager_init False 0
      "TriplePendulumEnv_init 4 (1 / 3) (1 / 300) (1 / 10)"]
  by (simp add: TriplePendulumEnv_init_def)

subsection \<open>The environment's \<^verbatim>\<open>step\<close>\<close>

text \<open>
  C1: the training loop calls \<^verbatim>\<open>self.env.step(action)\<close> and unpacks a pair, but the class
  \<^verbatim>\<open>TriplePendulumEnv\<close> binds no attribute \<^verbatim>\<open>step\<close>: the lookup raises
  \<^verbatim>\<open>AttributeError\<close>.
\<close>

theorem step_is_no_attribute: "TriplePendulumEnv_getattr ''step'' = Inl AttributeError"
  by (simp add: TriplePendulumEnv_getattr_def TriplePendulumEnv_fields_def
      TriplePendulumEnv_methods_def)

subsection \<open>The check for states that are not finite\<close>







text \<open>
  In this model an overflow on the way makes a sum NaN: two components of \<open>10^308\<close> add up
  to \<open>+Inf\<close>, and \<open>-Inf\<close> after them gives NaN, so the check raises.
\<close>

lemma check_next_state_overflow:
  "check_next_state binary64_add [Finite (10 ^ 308), Finite (10 ^ 308), NegInf] = Inl ValueError"
  by (simp add: check_next_state_def np_isnan_def np_sum_def binary64_add_def)




subsection \<open>Boundary clamp\<close>

lemma travel_limits: "xmax - cart_width / 2 = 9 / 5" "xmin + cart_width / 2 = - 9 / 5"
  by (simp_all add: xmax_def xmin_def cart_width_def window_width_def)

lemma clamp_cart_eq:
  assumes "0 < length ns" "j < length ns"
  shows "clamp_cart j ns =
     Inr (if ns ! 0 < - 9 / 5 then ns[0 := - 9 / 5, j := 0]
          else if 9 / 5 < ns ! 0 then ns[0 := 9 / 5, j := 0]
          else ns)"
proof -
  have "ns ! 0 - cart_width / 2 < xmin \<longleftrightarrow> ns ! 0 < - 9 / 5"
    by (auto simp: xmax_def xmin_def cart_width_def window_width_def)
  moreover have "ns ! 0 + cart_width / 2 > xmax \<longleftrightarrow> 9 / 5 < ns ! 0"
    by (auto simp: xmax_def xmin_def cart_width_def window_width_def)
  ultimately show ?thesis
    using assms by (simp add: clamp_cart_def getitem_def setitem_def travel_limits)
qed

lemma shape1_rows:
  assumes "states \<noteq> []" "\<forall>r \<in> set states. length r = w"
  shows "shape1 states = w"
  using assms by (cases states) (simp_all add: shape1_def)

lemma animate_step_eq:
  assumes frame: "int frame < steps - 1" "frame + 1 < length states"
    and widths: "\<forall>r \<in> set states. length r = 2 * k + 2"
    and dyn: "dyn (states ! frame
                 @ [applied_force self
                    + force_smoothing self * (target_force self - applied_force self)]
                 @ parameter_vals self) = Inr dx"
    and dx: "length dx = 2 * k + 2"
  shows "animate_step dyn steps self states frame =
     Inr (states[frame + 1 :=
            (let next_state = map2 (+) (states ! frame) (np_scale (env_dt self) dx)
             in if next_state ! 0 < - 9 / 5 then next_state[0 := - 9 / 5, k + 1 := 0]
                else if 9 / 5 < next_state ! 0 then next_state[0 := 9 / 5, k + 1 := 0]
                else next_state)],
          self\<lparr>current_frame := frame,
               applied_force := applied_force self
                 + force_smoothing self * (target_force self - applied_force self)\<rparr>)"
proof -
  have ne: "states \<noteq> []" using frame by auto
  have w: "shape1 states = 2 * k + 2" using shape1_rows [OF ne widths] .
  have row: "length (states ! frame) = 2 * k + 2" "length (states ! (frame + 1)) = 2 * k + 2"
    using frame widths by simp_all
  define ns where "ns = map2 (+) (states ! frame) (np_scale (env_dt self) dx)"
  have len: "length ns = 2 * k + 2" by (simp add: ns_def np_scale_def row dx)
  have add: "np_add (states ! frame) (np_scale (env_dt self) dx) = Inr ns"
    by (simp add: np_add_def ns_def np_scale_def row dx)
  have clamp: "clamp_cart (Suc k) ns =
      Inr (if ns ! 0 < - 9 / 5 then ns[0 := - 9 / 5, Suc k := 0]
           else if 9 / 5 < ns ! 0 then ns[0 := 9 / 5, Suc k := 0] else ns)"
    by (rule clamp_cart_eq) (simp_all add: len)
  have get: "getitem states frame = Inr (states ! frame)"
    using frame by (simp add: getitem_def)
  have set: "setrow states (Suc frame) r = Inr (states[Suc frame := r])"
    if "length r = Suc (Suc (2 * k))" for r
    using frame that row(2) by (simp add: setrow_def)
  have dyn': "dyn (states ! frame
                 @ (applied_force self
                    + force_smoothing self * (target_force self - applied_force self))
                 # parameter_vals self) = Inr dx"
    using dyn by simp
  show ?thesis
    unfolding animate_step_def
    using frame(1) len
    by (simp add: Let_def w get rhs_def dyn' add clamp set flip: ns_def)
qed

text \<open>
  C7: in the \<^verbatim>\<open>step\<close> of the animation, the one step with travel limits, for a frame before the last, on an
  array of states of \<open>k + 1\<close> coordinates and \<open>k + 1\<close> speeds, when the derivative is
  computed: the call returns; the travel limits are \<open>9/5\<close> and \<open>-9/5\<close>; if the integrated
  cart position is beyond a limit the next state has the cart at that limit and the cart's
  speed (index \<open>k + 1\<close>) at 0; otherwise the next state is the integrated one.
\<close>

theorem animate_step_clamps:
  assumes "int frame < steps - 1" and "frame + 1 < length states"
    and "\<forall>r \<in> set states. length r = 2 * k + 2"
    and "dyn (states ! frame
              @ [applied_force self
                 + force_smoothing self * (target_force self - applied_force self)]
              @ parameter_vals self) = Inr dx"
    and "length dx = 2 * k + 2"
  shows "xmax - cart_width / 2 = 9 / 5 \<and> xmin + cart_width / 2 = - 9 / 5
    \<and> (\<exists>states' self'.
         animate_step dyn steps self states frame = Inr (states', self')
         \<and> (let cart_position = states ! frame ! 0 + env_dt self * dx ! 0
            in (9 / 5 < cart_position \<longrightarrow>
                  states' ! (frame + 1) ! 0 = 9 / 5 \<and> states' ! (frame + 1) ! (k + 1) = 0)
             \<and> (cart_position < - 9 / 5 \<longrightarrow>
                  states' ! (frame + 1) ! 0 = - 9 / 5 \<and> states' ! (frame + 1) ! (k + 1) = 0)
             \<and> (- 9 / 5 \<le> cart_position \<and> cart_position \<le> 9 / 5 \<longrightarrow>
                  states' ! (frame + 1) = map2 (+) (states ! frame) (np_scale (env_dt self) dx))))"
proof -
  define ns where "ns = map2 (+) (states ! frame) (np_scale (env_dt self) dx)"
  have row: "length (states ! frame) = 2 * k + 2"
    using assms(2,3) by simp
  then have len: "length ns = 2 * k + 2"
    by (simp add: ns_def np_scale_def assms(5))
  have pos: "ns ! 0 = states ! frame ! 0 + env_dt self * dx ! 0"
    using row assms(5) by (simp add: ns_def np_scale_def)
  have eq: "animate_step dyn steps self states frame =
     Inr (states[frame + 1 :=
            (if ns ! 0 < - 9 / 5 then ns[0 := - 9 / 5, k + 1 := 0]
             else if 9 / 5 < ns ! 0 then ns[0 := 9 / 5, k + 1 := 0]
             else ns)],
          self\<lparr>current_frame := frame,
               applied_force := applied_force self
                 + force_smoothing self * (target_force self - applied_force self)\<rparr>)"
    using animate_step_eq [of frame steps states k dyn self dx] assms
    by (simp add: Let_def flip: ns_def)
  show ?thesis
    unfolding eq
    using assms(2) len pos
    by (simp add: travel_limits Let_def flip: ns_def)
qed

theorem animate_step_clamps_witness:
  "(\<exists>states' self'.
      animate_step (coasting_dyn 1) 3 (TriplePendulumEnv_init 1 (1 / 3) (1 / 300) (1 / 10))
        [[179 / 100, 0, 2, 0], [0, 0, 0, 0], [0, 0, 0, 0], [0, 0, 0, 0]] 0 = Inr (states', self')
      \<and> states' ! (0 + 1) ! 0 = 9 / 5 \<and> states' ! (0 + 1) ! (1 + 1) = 0)
   \<and> (\<exists>states' self'.
      animate_step (coasting_dyn 1) 3 (TriplePendulumEnv_init 1 (1 / 3) (1 / 300) (1 / 10))
        [[- 179 / 100, 0, - 2, 0], [0, 0, 0, 0], [0, 0, 0, 0], [0, 0, 0, 0]] 0 = Inr (states', self')
      \<and> states' ! (0 + 1) ! 0 = - 9 / 5 \<and> states' ! (0 + 1) ! (1 + 1) = 0)"
  using animate_step_clamps [of 0 3 "[[179 / 100, 0, 2, 0], [0, 0, 0, 0], [0, 0, 0, 0], [0, 0, 0, 0]]"
      1 "coasting_dyn 1" "TriplePendulumEnv_init 1 (1 / 3) (1 / 300) (1 / 10)" "[2, 0, 0, 0]"]
    animate_step_clamps [of 0 3 "[[- 179 / 100, 0, - 2, 0], [0, 0, 0, 0], [0, 0, 0, 0], [0, 0, 0, 0]]"
      1 "coasting_dyn 1" "TriplePendulumEnv_init 1 (1 / 3) (1 / 300) (1 / 10)" "[- 2, 0, 0, 0]"]
  by (simp add: coasting_dyn_def TriplePendulumEnv_init_def)

text \<open>
  The loop under \<^verbatim>\<open>__main__\<close> has no travel limit of its own: one pass adds the derivative
  times \<^verbatim>\<open>dt\<close>. The animation that follows computes every row after the first again, with
  the step above.
\<close>

lemma main_loop_body_eq:
  assumes "dyn (state @ [0] @ parameter_vals env) = Inr dx" "length dx = length state"
  shows "main_loop_body dyn (env, state, states) =
     Inr (env\<lparr>current_time := current_time env + env_dt env\<rparr>,
          map2 (+) state (np_scale (env_dt env) dx),
          states @ [map2 (+) state (np_scale (env_dt env) dx)])"
proof -
  have "dyn (state @ 0 # parameter_vals env) = Inr dx" using assms(1) by simp
  then show ?thesis
    using assms(2) by (simp add: main_loop_body_def rhs_def np_add_def np_scale_def)
qed

end
